theory Spec2Isabelle
  imports Main
begin

section \<open>Data model\<close>

text \<open>
  A path is the list of its segments below the file-system root, so that
  \<^verbatim>\<open>path.join(a, b)\<close> is list append and \<^verbatim>\<open>path.basename\<close> is \<^term>\<open>last\<close>.
  A relative path handed to the tool is resolved against the working directory.
\<close>

type_synonym path = "string list"

text \<open>The configuration document \<^verbatim>\<open>midnight.config.json\<close>; every field may be absent.\<close>

record CompilerConfig =
  version :: "string option"
  outputDir :: "path option"

record ProofServerConfig =
  port :: "nat option"
  docker :: "bool option"

record Config =
  network :: "string option"
  compiler :: "CompilerConfig option"
  proofServer :: "ProofServerConfig option"

text \<open>One entry of the deployment ledger \<^verbatim>\<open>deployments.json\<close> (\<^verbatim>\<open>deploymentInfo\<close>).\<close>

record DeploymentRecord =
  network :: string
  contractAddress :: string
  transactionHash :: string
  blockNumber :: nat
  timestamp :: string

text \<open>The manifest \<^verbatim>\<open>package.json\<close> written by the initializer (\<^verbatim>\<open>packageJson\<close>).\<close>

record PackageJson =
  name :: string
  version :: string
  description :: string
  scripts :: "(string \<times> string) list"
  dependencies :: "(string \<times> string) list"
  devDependencies :: "(string \<times> string) list"
  license :: string

text \<open>
  A file holds either text, given by its lines, or one of the JSON documents the tool
  reads and writes. The ledger is a JSON object, modelled as a finite map from property
  names to values: the names are plain keys, and the properties every JavaScript object
  inherits are outside the model. A directory node carries its entries in
  directory-listing order.
\<close>

datatype content =
    Text "string list"
  | Manifest PackageJson
  | ConfigDoc Config
  | LedgerDoc "string \<rightharpoonup> DeploymentRecord"

datatype node = Dir "string list" | File content

type_synonym filesystem = "path \<rightharpoonup> node"

text \<open>
  External commands, one constructor per command line the tool builds; \<open>command_line\<close>
  below gives the text of each. The compiler is named by the text the tool puts in front
  of its arguments. \<open>NpmInstall d\<close> runs in the directory \<open>d\<close>.
\<close>

datatype command =
    Curl string
  | MidnightProofServerStart
  | DockerVersion
  | DockerInfo
  | DockerPull
  | DockerRun bool string
  | DockerStop
  | DockerPsNames
  | DockerPsTable
  | DockerLogs bool
  | CompactcVersion string
  | Compactc string path path
  | NpmInstall path
  | NpxJest bool bool bool

definition show_path :: "path \<Rightarrow> string" where
  "show_path p = concat (map (\<lambda>s. ''/'' @ s) p)"

fun command_line :: "command \<Rightarrow> string" where
  \<open>command_line (Curl p) = ''curl -s http://localhost:'' @ p @ ''/health''\<close>
| \<open>command_line MidnightProofServerStart = ''midnight proof-server start''\<close>
| \<open>command_line DockerVersion = ''docker --version''\<close>
| \<open>command_line DockerInfo = ''docker info''\<close>
| \<open>command_line DockerPull = ''docker pull midnightnetwork/proof-server:latest''\<close>
| \<open>command_line (DockerRun d p) =
     ''docker run '' @ (if d then ''-d'' else []) @
     '' --rm --name midnight-proof-server -p '' @ p @
     '':6300 midnightnetwork/proof-server -- 'midnight-proof-server --network testnet'' @
     [CHR 0x27]\<close>
| \<open>command_line DockerStop = ''docker stop midnight-proof-server''\<close>
| \<open>command_line DockerPsNames =
     ''docker ps --filter name=midnight-proof-server --format "{{.Names}}"''\<close>
| \<open>command_line DockerPsTable =
     ''docker ps --filter name=midnight-proof-server --format "table {{.Status}}'' @
     [CHR 0x5C] @ ''t{{.Ports}}"''\<close>
| \<open>command_line (DockerLogs f) =
     ''docker logs '' @ (if f then ''-f '' else []) @ ''midnight-proof-server''\<close>
| \<open>command_line (CompactcVersion c) = c @ '' --version''\<close>
| \<open>command_line (Compactc c i out) = c @ '' '' @ show_path i @ '' -o '' @ show_path out\<close>
| \<open>command_line (NpmInstall d) = ''npm install''\<close>
| \<open>command_line (NpxJest w c v) =
     ''npx jest'' @ (if w then '' --watch'' else []) @ (if c then '' --coverage'' else []) @
     (if v then '' --verbose'' else [])\<close>

text \<open>
  What a run leaves behind besides the file system: the external commands it ran, the
  simulated deployment call, and the messages that close a spinner (\<open>Succeed\<close>,
  \<open>Fail\<close>, \<open>Warn\<close>, \<open>Info\<close>). \<open>Error\<close> is a line printed in red with the failure
  indicator. Decorative console output is not recorded.
\<close>

datatype event =
    Exec command
  | Simulate path string
  | Succeed string
  | Fail string
  | Warn string
  | Info string
  | Error string

text \<open>
  How a command ends: \<open>Exit n\<close> is the exit code of the process (\<^verbatim>\<open>process.exit(1)\<close>, or
  0 when the action returns and nothing keeps the process alive); \<open>Running\<close> means the
  process stays alive until it is interrupted or its child process ends (watch mode, an
  attached container, followed logs); \<open>Interrupted\<close> means that the user left a prompt
  without ever giving an accepted answer.
\<close>

datatype status = Exit nat | Running | Interrupted

text \<open>The errors the commands throw, with the message each carries.\<close>

datatype error =
    ConfigNotFound path
  | CompiledContractNotFound path
  | NoCompactFiles
  | NoContractsDir
  | ContractFileNotFound path
  | CompilerNotFound
  | DockerNotInstalled
  | DockerNotRunning
  | CommandFailed command
  | FsError string path

text \<open>Paths are shown resolved.\<close>

fun message :: "error \<Rightarrow> string" where
  "message (ConfigNotFound p) = ''Configuration file not found: '' @ show_path p"
| "message (CompiledContractNotFound p) =
     ''Compiled contract not found at '' @ show_path p @ ''. Run 'npm run compile-contract' first.''"
| "message NoCompactFiles = ''No .compact files found in src/contracts/''"
| "message NoContractsDir = ''No contracts directory found. Run \"midnight init\" first.''"
| "message (ContractFileNotFound p) = ''Contract file not found: '' @ show_path p"
| "message CompilerNotFound =
     ''Compact compiler not found. Please install it and set COMPACT_HOME environment variable.''"
| "message DockerNotInstalled = ''Docker is not installed. Please install Docker Desktop first.''"
| "message DockerNotRunning = ''Docker is not running. Please start Docker Desktop.''"
| "message (CommandFailed c) = ''Command failed: '' @ command_line c"
| "message (FsError code p) = code @ '': '' @ show_path p"

section \<open>The world a command runs in\<close>

text \<open>
  The world is the file system, the working directory, the \<^verbatim>\<open>COMPACT_HOME\<close> environment
  variable and the container runtime: \<open>container\<close> is the host port published by the
  running container named \<^verbatim>\<open>midnight-proof-server\<close> (whose own port is always 6300),
  \<open>server_healthy\<close> says whether the server in it answers its health endpoint, and
  \<open>answering\<close> lists the host ports on which something else answers the probe. The
  outcome of every other external command is given by \<open>succeeds\<close>.
\<close>

record world =
  fs :: filesystem
  cwd :: path
  COMPACT_HOME :: "path option"
  container :: "string option"
  server_healthy :: bool
  answering :: "string list"
  succeeds :: "command \<Rightarrow> bool"

text \<open>\<^verbatim>\<open>execSync\<close>: whether the command exits with code zero, and the world afterwards.\<close>

fun exec :: "command \<Rightarrow> world \<Rightarrow> bool \<times> world" where
  "exec (Curl p) w = ((container w = Some p \<and> server_healthy w) \<or> p \<in> set (answering w), w)"
| "exec (DockerRun d p) w =
     (if succeeds w (DockerRun d p) then (True, w\<lparr>container := Some p\<rparr>) else (False, w))"
| "exec DockerStop w =
     (if succeeds w DockerStop \<and> container w \<noteq> None then (True, w\<lparr>container := None\<rparr>)
      else (False, w))"
| "exec c w = (succeeds w c, w)"

text \<open>
  The names printed by \<^verbatim>\<open>docker ps --filter name=midnight-proof-server\<close>, trimmed;
  \<open>None\<close> when the command fails.
\<close>

definition docker_ps_names :: "world \<Rightarrow> string option" where
  "docker_ps_names w =
     (if succeeds w DockerPsNames
      then Some (if container w \<noteq> None then ''midnight-proof-server'' else [])
      else None)"

subsection \<open>File-system operations\<close>

definition existsSync :: "path \<Rightarrow> filesystem \<Rightarrow> bool" where
  "existsSync p f = (f p \<noteq> None)"

definition readdirSync :: "path \<Rightarrow> filesystem \<Rightarrow> error + string list" where
  "readdirSync p f =
     (case f p of
        Some (Dir names) \<Rightarrow> Inr names
      | Some (File _) \<Rightarrow> Inl (FsError ''ENOTDIR'' p)
      | None \<Rightarrow> Inl (FsError ''ENOENT'' p))"

text \<open>A new entry is listed last in its parent directory.\<close>

definition add_entry :: "path \<Rightarrow> string \<Rightarrow> filesystem \<Rightarrow> filesystem" where
  "add_entry d n f =
     (case f d of
        Some (Dir names) \<Rightarrow> if n \<in> set names then f else f(d \<mapsto> Dir (names @ [n]))
      | _ \<Rightarrow> f)"

text \<open>
  A mutating operation returns the error it threw, if any, and the file system it left:
  nothing is rolled back.
\<close>

type_synonym fs_action = "filesystem \<Rightarrow> error option \<times> filesystem"

fun mkdirs :: "path \<Rightarrow> string list \<Rightarrow> fs_action" where
  "mkdirs d [] f = (None, f)"
| "mkdirs d (s # ss) f =
     (case f (d @ [s]) of
        Some (File _) \<Rightarrow> (Some (FsError ''EEXIST'' (d @ [s])), f)
      | Some (Dir _) \<Rightarrow> mkdirs (d @ [s]) ss f
      | None \<Rightarrow> mkdirs (d @ [s]) ss ((add_entry d s f)(d @ [s] \<mapsto> Dir [])))"

definition ensureDirSync :: "path \<Rightarrow> fs_action" where
  "ensureDirSync p f = mkdirs [] p f"

definition writeFileSync :: "path \<Rightarrow> content \<Rightarrow> fs_action" where
  "writeFileSync p c f =
     (if p = [] then (Some (FsError ''EISDIR'' p), f)
      else case f (butlast p) of
        Some (Dir names) \<Rightarrow>
          (case f p of
             Some (Dir _) \<Rightarrow> (Some (FsError ''EISDIR'' p), f)
           | _ \<Rightarrow> (None, (add_entry (butlast p) (last p) f)(p \<mapsto> File c)))
      | Some (File _) \<Rightarrow> (Some (FsError ''ENOTDIR'' p), f)
      | None \<Rightarrow> (Some (FsError ''ENOENT'' p), f))"

text \<open>Statements in sequence: the first error ends the sequence.\<close>

fun run_all :: "fs_action list \<Rightarrow> fs_action" where
  "run_all [] f = (None, f)"
| "run_all (a # as) f =
     (case a f of
        (Some e, f') \<Rightarrow> (Some e, f')
      | (None, f') \<Rightarrow> run_all as f')"

subsection \<open>JavaScript operators on optional values\<close>

text \<open>
  \<^verbatim>\<open>a || b\<close> on a string that may be undefined: \<open>a\<close> unless it is undefined or empty.
  \<^verbatim>\<open>a ?? b\<close>: \<open>a\<close> unless it is undefined.
\<close>

fun truthy :: "'a list option \<Rightarrow> bool" where
  "truthy None = False"
| "truthy (Some s) = (s \<noteq> [])"

definition js_or :: "'a list option \<Rightarrow> 'a list \<Rightarrow> 'a list" where
  "js_or a b = (case a of Some s \<Rightarrow> if s \<noteq> [] then s else b | None \<Rightarrow> b)"

definition nullish :: "'a option \<Rightarrow> 'a \<Rightarrow> 'a" where
  "nullish a b = (case a of Some x \<Rightarrow> x | None \<Rightarrow> b)"

fun string_of_nat :: "nat \<Rightarrow> string" where
  "string_of_nat n =
     (if n < 10 then [''0123456789'' ! n]
      else string_of_nat (n div 10) @ [''0123456789'' ! (n mod 10)])"

declare string_of_nat.simps [simp del]

section \<open>\<^verbatim>\<open>midnight init\<close>\<close>

record ProjectOptions =
  name :: string
  template :: string
  useTypeScript :: bool
  installDependencies :: bool

text \<open>The template table: key, name, description and repository of each template.\<close>

definition templates :: "(string \<times> string \<times> string \<times> string) list" where
  "templates =
     [(''basic-dapp'', ''Basic DApp'', ''Simple DApp with smart contract and UI'',
       ''https://github.com/midnight-network/basic-dapp-template''),
      (''zk-game'', ''ZK Game'', ''Privacy-preserving game using zero-knowledge proofs'',
       ''https://github.com/midnight-network/zk-game-template''),
      (''defi-app'', ''DeFi Application'',
       ''Decentralized finance application with privacy features'',
       ''https://github.com/midnight-network/defi-template''),
      (''identity'', ''Identity Verification'',
       ''Privacy-preserving identity verification system'',
       ''https://github.com/midnight-network/identity-template'')]"

subsection \<open>Name validation\<close>

text \<open>
  The \<^verbatim>\<open>validate\<close> callback of the name question tests the input against
  \<^verbatim>\<open>/^[a-z0-9-]+$/\<close>: \<open>name_class\<close> is the character class, with its two ranges read
  over character codes, and \<open>one_or_more\<close> is the anchored repetition: the whole input
  is one or more characters of the class. The callback returns \<^verbatim>\<open>true\<close> (\<open>Valid\<close>) or
  the message shown to the user.
\<close>

datatype validation = Valid | Invalid string

definition in_range :: "char \<Rightarrow> char \<Rightarrow> char \<Rightarrow> bool" where
  "in_range lo hi c = ((of_char lo :: nat) \<le> of_char c \<and> (of_char c :: nat) \<le> of_char hi)"

definition name_class :: "char \<Rightarrow> bool" where
  "name_class c =
     (in_range (CHR ''a'') (CHR ''z'') c \<or> in_range (CHR ''0'') (CHR ''9'') c \<or> c = CHR ''-'')"

fun one_or_more :: "(char \<Rightarrow> bool) \<Rightarrow> string \<Rightarrow> bool" where
  "one_or_more cls [] = False"
| "one_or_more cls [c] = cls c"
| "one_or_more cls (c # cs) = (cls c \<and> one_or_more cls cs)"

definition validate :: "string \<Rightarrow> validation" where
  "validate input =
     (if one_or_more name_class input then Valid
      else Invalid ''Project name must contain only lowercase letters, numbers, and hyphens'')"

text \<open>
  The specification's wording of the same condition: a non-empty string of lowercase
  letters, digits and hyphens.
\<close>

definition lowercase_alphanumeric_hyphen :: "string \<Rightarrow> bool" where
  "lowercase_alphanumeric_hyphen s =
     (s \<noteq> [] \<and> set s \<subseteq> set ''abcdefghijklmnopqrstuvwxyz0123456789-'')"

subsection \<open>The prompts\<close>

text \<open>
  The options the command-line parser hands to the action (\<^verbatim>\<open>--template\<close>,
  \<^verbatim>\<open>--typescript\<close>, \<^verbatim>\<open>--no-install\<close>), the answers of the prompt library, and what the
  user does at the prompts: the lines typed at the name question, the template picked
  from the list, and the two confirmations.
\<close>

record InitOptions =
  template :: "string option"
  typescript :: "bool option"
  install :: "bool option"

record Answers =
  name :: string
  template :: "string option"
  useTypeScript :: "bool option"
  installDependencies :: "bool option"

record Keyboard =
  typed_names :: "string list"
  picked_template :: string
  confirmed_typescript :: bool
  confirmed_install :: bool

text \<open>
  An input question of the prompt library: an empty line stands for the default, the
  answer is checked by the question's \<^verbatim>\<open>validate\<close>, and the question is asked again
  until an answer is accepted. \<open>None\<close>: the user gave up before that.
\<close>

definition input_prompt :: "string \<Rightarrow> (string \<Rightarrow> validation) \<Rightarrow> string list \<Rightarrow> string option" where
  "input_prompt dflt check typed =
     find (\<lambda>a. check a = Valid) (map (\<lambda>l. if l = [] then dflt else l) typed)"

definition prompt :: "string option \<Rightarrow> InitOptions \<Rightarrow> Keyboard \<Rightarrow> Answers option" where
  "prompt name_arg options kb =
     (case input_prompt (js_or name_arg ''my-midnight-app'') validate (typed_names kb) of
        None \<Rightarrow> None
      | Some n \<Rightarrow>
          Some \<lparr>Answers.name = n,
                Answers.template =
                  (if \<not> truthy (InitOptions.template options) then Some (picked_template kb)
                   else None),
                Answers.useTypeScript =
                  (if typescript options = None then Some (confirmed_typescript kb) else None),
                Answers.installDependencies =
                  (if install options = None then Some (confirmed_install kb) else None)\<rparr>)"

subsection \<open>\<^verbatim>\<open>createProjectStructure\<close>\<close>

definition dirs :: "path list" where
  "dirs = [[''src''], [''src'', ''contracts''], [''src'', ''components''], [''src'', ''utils''],
           [''tests''], [''public'']]"

definition packageJson :: "ProjectOptions \<Rightarrow> PackageJson" where
  "packageJson options =
     \<lparr>PackageJson.name = ProjectOptions.name options,
      PackageJson.version = ''0.1.0'',
      description = ''A Midnight Network DApp'',
      scripts =
        [(''dev'', ''vite''),
         (''build'', ''vite build''),
         (''test'', ''jest''),
         (''compile-contract'', ''compactc src/contracts/main.compact -o build/''),
         (''deploy'', ''midnight deploy'')],
      dependencies =
        [(''@midnight-ntwrk/midnight-js-sdk'', ''latest''),
         (''@midnight-ntwrk/compact-runtime'', ''latest''),
         (''react'', ''^18.2.0''),
         (''react-dom'', ''^18.2.0''),
         (''vite'', ''^4.4.0'')],
      devDependencies =
        (if ProjectOptions.useTypeScript options
         then [(''@types/react'', ''^18.2.0''),
               (''@types/react-dom'', ''^18.2.0''),
               (''typescript'', ''^5.0.0''),
               (''@vitejs/plugin-react'', ''^4.0.0'')]
         else [(''@vitejs/plugin-react'', ''^4.0.0'')]),
      license = ''Apache-2.0''\<rparr>"

definition contractContent :: "string list" where
  "contractContent =
    [''// Basic Midnight smart contract'',
     ''contract Counter {'',
     ''  secret counter: Field;'',
     ''  '',
     ''  export function increment(): Void {'',
     ''    counter = counter + 1;'',
     ''  }'',
     ''  '',
     ''  export function getCount(): Field {'',
     ''    return counter;'',
     ''  }'',
     ''}'']"

definition appContent :: "ProjectOptions \<Rightarrow> string list" where
  \<open>appContent options =
    (if ProjectOptions.useTypeScript options
     then
    [''import React, { useState, useEffect } from 'react';'',
     ''import { MidnightProvider, useMidnight } from '@midnight-ntwrk/midnight-js-sdk';'',
     '''',
     ''function App() {'',
     ''  const [count, setCount] = useState<number>(0);'',
     ''  const { contract, isConnected } = useMidnight();'',
     '''',
     ''  const handleIncrement = async () => {'',
     ''    if (contract) {'',
     ''      await contract.increment();'',
     ''      const newCount = await contract.getCount();'',
     ''      setCount(newCount);'',
     ''    }'',
     ''  };'',
     '''',
     ''  return ('',
     ''    <div className="app">'',
     ''      <h1>Midnight Counter DApp</h1>'',
     ''      <p>Count: {count}</p>'',
     ''      <button onClick={handleIncrement}>Increment</button>'',
     ''      <p>Connected: {isConnected ? 'Yes' : 'No'}</p>'',
     ''    </div>'',
     ''  );'',
     ''}'',
     '''',
     ''export default App;'']
     else
    [''import React, { useState, useEffect } from 'react';'',
     ''import { MidnightProvider, useMidnight } from '@midnight-ntwrk/midnight-js-sdk';'',
     '''',
     ''function App() {'',
     ''  const [count, setCount] = useState(0);'',
     ''  const { contract, isConnected } = useMidnight();'',
     '''',
     ''  const handleIncrement = async () => {'',
     ''    if (contract) {'',
     ''      await contract.increment();'',
     ''      const newCount = await contract.getCount();'',
     ''      setCount(newCount);'',
     ''    }'',
     ''  };'',
     '''',
     ''  return ('',
     ''    <div className="app">'',
     ''      <h1>Midnight Counter DApp</h1>'',
     ''      <p>Count: {count}</p>'',
     ''      <button onClick={handleIncrement}>Increment</button>'',
     ''      <p>Connected: {isConnected ? 'Yes' : 'No'}</p>'',
     ''    </div>'',
     ''  );'',
     ''}'',
     '''',
     ''export default App;''])\<close>

definition fileExtension :: "ProjectOptions \<Rightarrow> string" where
  "fileExtension options = (if ProjectOptions.useTypeScript options then ''tsx'' else ''jsx'')"

definition readmeContent :: "ProjectOptions \<Rightarrow> string list" where
  "readmeContent options =
    [''# '' @ ProjectOptions.name options,
     '''',
     ''A Midnight Network DApp built with Midnight DevKit.'',
     '''',
     ''## Getting Started'',
     '''',
     ''### Prerequisites'',
     '''',
     ''- Node.js 18+'',
     ''- Midnight Compact compiler'',
     ''- Docker (for proof server)'',
     '''',
     ''### Installation'',
     '''',
     ''```bash'',
     ''npm install'',
     ''```'',
     '''',
     ''### Development'',
     '''',
     ''1. Start the proof server:'',
     ''```bash'',
     ''midnight proof-server start'',
     ''```'',
     '''',
     ''2. Compile contracts:'',
     ''```bash'',
     ''npm run compile-contract'',
     ''```'',
     '''',
     ''3. Start development server:'',
     ''```bash'',
     ''npm run dev'',
     ''```'',
     '''',
     ''### Deployment'',
     '''',
     ''```bash'',
     ''midnight deploy --network testnet'',
     ''```'',
     '''',
     ''## License'',
     '''',
     ''Apache-2.0'']"

definition gitignoreContent :: "string list" where
  "gitignoreContent =
    [''node_modules/'',
     ''dist/'',
     ''build/'',
     ''.env'',
     ''.env.local'',
     ''*.log'',
     ''.DS_Store'']"

definition midnightConfig :: Config where
  "midnightConfig =
     \<lparr>Config.network = Some ''testnet'',
      compiler = Some \<lparr>CompilerConfig.version = Some ''0.8.11'', outputDir = Some [''build'']\<rparr>,
      proofServer = Some \<lparr>ProofServerConfig.port = Some 6300, docker = Some True\<rparr>\<rparr>"

text \<open>The files written, in order, below the project directory.\<close>

definition generated_files :: "ProjectOptions \<Rightarrow> (path \<times> content) list" where
  "generated_files options =
     [([''package.json''], Manifest (packageJson options)),
      ([''src'', ''contracts'', ''Counter.compact''], Text contractContent),
      ([''src'', ''App.'' @ fileExtension options], Text (appContent options)),
      ([''README.md''], Text (readmeContent options)),
      ([''.gitignore''], Text gitignoreContent),
      ([''midnight.config.json''], ConfigDoc midnightConfig)]"

definition createProjectStructure :: "path \<Rightarrow> ProjectOptions \<Rightarrow> fs_action" where
  "createProjectStructure projectPath options =
     run_all
       (map (\<lambda>dir. ensureDirSync (projectPath @ dir)) dirs @
        map (\<lambda>(p, c). writeFileSync (projectPath @ p) c) (generated_files options))"

subsection \<open>The action\<close>

text \<open>
  The project options are merged from the answers, the command line and the defaults.
  An accepted name has no separator, so the project path is the working directory
  extended by one segment.
\<close>

definition project_options :: "string option \<Rightarrow> InitOptions \<Rightarrow> Answers \<Rightarrow> ProjectOptions" where
  "project_options name_arg options answers =
     \<lparr>ProjectOptions.name = js_or (Some (Answers.name answers)) (js_or name_arg []),
      ProjectOptions.template =
        js_or (Answers.template answers) (js_or (InitOptions.template options) ''basic-dapp''),
      ProjectOptions.useTypeScript =
        nullish (Answers.useTypeScript answers) (nullish (typescript options) True),
      ProjectOptions.installDependencies =
        nullish (Answers.installDependencies answers) (nullish (install options) True)\<rparr>"

definition initCommand ::
  "string option \<Rightarrow> InitOptions \<Rightarrow> Keyboard \<Rightarrow> world \<Rightarrow> status \<times> event list \<times> world" where
  "initCommand name_arg options kb w =
     (case prompt name_arg options kb of
        None \<Rightarrow> (Interrupted, [], w)
      | Some answers \<Rightarrow>
          let projectOptions = project_options name_arg options answers;
              projectPath = cwd w @ [ProjectOptions.name projectOptions]
          in
            if existsSync projectPath (fs w)
            then (Exit 1,
                  [Error (''Directory '' @ ProjectOptions.name projectOptions @ '' already exists!'')],
                  w)
            else
              (case run_all [ensureDirSync projectPath,
                             createProjectStructure projectPath projectOptions] (fs w) of
                 (Some e, f') \<Rightarrow>
                   (Exit 1, [Fail ''Failed to create project'', Error (message e)], w\<lparr>fs := f'\<rparr>)
               | (None, f') \<Rightarrow>
                   if ProjectOptions.installDependencies projectOptions
                   then
                     (case exec (NpmInstall projectPath) (w\<lparr>fs := f'\<rparr>) of
                        (True, w') \<Rightarrow>
                          (Exit 0,
                           [Succeed ''Project structure created'', Exec (NpmInstall projectPath),
                            Succeed ''Dependencies installed''],
                           w')
                      | (False, w') \<Rightarrow>
                          (Exit 1,
                           [Succeed ''Project structure created'', Exec (NpmInstall projectPath),
                            Fail ''Failed to create project'',
                            Error (message (CommandFailed (NpmInstall projectPath)))],
                           w'))
                   else (Exit 0, [Succeed ''Project structure created''], w\<lparr>fs := f'\<rparr>)))"

section \<open>\<^verbatim>\<open>midnight deploy\<close>\<close>

text \<open>
  The options of the action. The network is declared as \<^verbatim>\<open>'testnet' | 'mainnet'\<close>; at run
  time it is the text given with \<^verbatim>\<open>--network\<close>, which the command-line parser does not
  check, or the default \<^verbatim>\<open>testnet\<close>.
\<close>

record DeployOptions =
  network :: string
  contractPath :: "path option"
  configPath :: "path option"
  verbose :: bool

text \<open>
  \<^verbatim>\<open>fs.readJsonSync\<close> at the two places the command reads a document. A file that does
  not hold a document of the expected kind makes the read throw.
\<close>

definition readJsonSync_config :: "path \<Rightarrow> filesystem \<Rightarrow> error + Config" where
  "readJsonSync_config p f =
     (case f p of
        Some (File (ConfigDoc c)) \<Rightarrow> Inr c
      | _ \<Rightarrow> Inl (FsError ''JSON'' p))"

definition readJsonSync_deployments :: "path \<Rightarrow> filesystem \<Rightarrow> error + (string \<rightharpoonup> DeploymentRecord)" where
  "readJsonSync_deployments p f =
     (case f p of
        Some (File (LedgerDoc l)) \<Rightarrow> Inr l
      | _ \<Rightarrow> Inl (FsError ''JSON'' p))"

text \<open>
  The mock identifiers. The random source \<open>rnd\<close> is a stream of naturals:
  \<^verbatim>\<open>Math.floor(Math.random() * n)\<close> at the \<open>k\<close>-th draw is \<open>rnd k mod n\<close>.
\<close>

definition random_chars :: "string \<Rightarrow> (nat \<Rightarrow> nat) \<Rightarrow> nat \<Rightarrow> nat \<Rightarrow> string" where
  "random_chars chars rnd k n = map (\<lambda>i. chars ! (rnd (k + i) mod length chars)) [0..<n]"

definition generateMockAddress :: "(nat \<Rightarrow> nat) \<Rightarrow> nat \<Rightarrow> string" where
  "generateMockAddress rnd k = ''mn_contract_'' @ random_chars ''0123456789abcdef'' rnd k 40"

definition generateMockTxHash :: "(nat \<Rightarrow> nat) \<Rightarrow> nat \<Rightarrow> string" where
  "generateMockTxHash rnd k = ''0x'' @ random_chars ''0123456789abcdef'' rnd k 64"

text \<open>\<^verbatim>\<open>const network = options.network || config.network || 'testnet'\<close>.\<close>

definition resolve_network :: "DeployOptions \<Rightarrow> Config \<Rightarrow> string" where
  "resolve_network options config =
     js_or (Some (DeployOptions.network options)) (js_or (Config.network config) ''testnet'')"

text \<open>
  The two paths the action resolves: \<^verbatim>\<open>configPath\<close>, and \<^verbatim>\<open>contractPath\<close>, which
  without the option is \<^verbatim>\<open>contract.wasm\<close> in the configured output directory.
\<close>

definition config_file :: "DeployOptions \<Rightarrow> world \<Rightarrow> path" where
  "config_file options w = cwd w @ js_or (configPath options) [''midnight.config.json'']"

definition contract_file :: "DeployOptions \<Rightarrow> Config \<Rightarrow> world \<Rightarrow> path" where
  "contract_file options config w =
     cwd w @
     js_or (contractPath options)
       (js_or (case compiler config of Some c \<Rightarrow> outputDir c | None \<Rightarrow> None) [''build''] @
        [''contract.wasm''])"

text \<open>The deployment record; \<open>now\<close> is the clock's ISO-8601 reading.\<close>

definition deploymentInfo :: "string \<Rightarrow> (nat \<Rightarrow> nat) \<Rightarrow> string \<Rightarrow> DeploymentRecord" where
  "deploymentInfo net rnd now =
     \<lparr>DeploymentRecord.network = net,
      contractAddress = generateMockAddress rnd 0,
      transactionHash = generateMockTxHash rnd 40,
      blockNumber = rnd 104 mod 1000000,
      timestamp = now\<rparr>"

text \<open>The \<^verbatim>\<open>catch\<close> block of the action.\<close>

definition deploy_failed :: "event list \<Rightarrow> error \<Rightarrow> world \<Rightarrow> status \<times> event list \<times> world" where
  "deploy_failed log e w = (Exit 1, log @ [Fail ''Deployment failed'', Error (message e)], w)"

text \<open>
  The part of the action after the proof server was probed: the simulated deployment
  and the read-merge-write of the ledger.
\<close>

definition deploy_and_save ::
  "path \<Rightarrow> string \<Rightarrow> (nat \<Rightarrow> nat) \<Rightarrow> string \<Rightarrow> event list \<Rightarrow> world \<Rightarrow> status \<times> event list \<times> world" where
  "deploy_and_save contractFile net rnd now log w =
     (let log1 = log @ [Simulate contractFile net,
                        Succeed (''Contract deployed successfully to '' @ net @ ''!'')];
          deploymentsPath = cwd w @ [''deployments.json'']
      in
        (case (if existsSync deploymentsPath (fs w)
               then readJsonSync_deployments deploymentsPath (fs w)
               else Inr Map.empty) of
           Inl e \<Rightarrow> deploy_failed log1 e w
         | Inr deployments \<Rightarrow>
            (case writeFileSync deploymentsPath
                    (LedgerDoc (deployments(net \<mapsto> deploymentInfo net rnd now))) (fs w) of
               (Some e, f') \<Rightarrow> deploy_failed log1 e (w\<lparr>fs := f'\<rparr>)
             | (None, f') \<Rightarrow> (Exit 0, log1, w\<lparr>fs := f'\<rparr>))))"

definition deployCommand ::
  "DeployOptions \<Rightarrow> (nat \<Rightarrow> nat) \<Rightarrow> string \<Rightarrow> world \<Rightarrow> status \<times> event list \<times> world" where
  "deployCommand options rnd now w =
     (let configFile = config_file options w in
      if \<not> existsSync configFile (fs w) then deploy_failed [] (ConfigNotFound configFile) w
      else
        (case readJsonSync_config configFile (fs w) of
           Inl e \<Rightarrow> deploy_failed [] e w
         | Inr config \<Rightarrow>
            (let net = resolve_network options config;
                contractFile = contract_file options config w
            in
              if \<not> existsSync contractFile (fs w)
              then deploy_failed [] (CompiledContractNotFound contractFile) w
              else
                (case exec (Curl ''6300'') w of
                   (True, w1) \<Rightarrow> deploy_and_save contractFile net rnd now [Exec (Curl ''6300'')] w1
                 | (False, w1) \<Rightarrow>
                    (case exec MidnightProofServerStart w1 of
                       (True, w2) \<Rightarrow>
                         deploy_and_save contractFile net rnd now
                           [Exec (Curl ''6300''),
                            Warn ''Proof server not running. Starting it now...'',
                            Exec MidnightProofServerStart] w2
                     | (False, w2) \<Rightarrow>
                         deploy_failed
                           [Exec (Curl ''6300''),
                            Warn ''Proof server not running. Starting it now...'',
                            Exec MidnightProofServerStart]
                           (CommandFailed MidnightProofServerStart) w2)))))"

text \<open>
  The ledger a world holds: the mapping in \<^verbatim>\<open>deployments.json\<close>, empty without the
  file (and without a ledger in it, where deploy fails before it writes).
\<close>

definition ledger :: "world \<Rightarrow> (string \<rightharpoonup> DeploymentRecord)" where
  "ledger w =
     (case fs w (cwd w @ [''deployments.json'']) of
        Some (File (LedgerDoc l)) \<Rightarrow> l
      | _ \<Rightarrow> Map.empty)"

section \<open>\<^verbatim>\<open>midnight contract\<close>\<close>

record CompileOptions =
  "output" :: "path option"
  watch :: bool
  verbose :: bool

definition endsWith :: "string \<Rightarrow> string \<Rightarrow> bool" where
  "endsWith s suffix =
     (length suffix \<le> length s \<and> drop (length s - length suffix) s = suffix)"

text \<open>
  The block that finds the contract file: the explicit argument when there is one,
  else the first \<^verbatim>\<open>.compact\<close> entry of \<^verbatim>\<open>src/contracts\<close>, with a notice when there
  are several. It returns the file and the notices, or the error thrown.
\<close>

definition find_contract :: "path option \<Rightarrow> world \<Rightarrow> error + path \<times> event list" where
  "find_contract file w =
     (let contractsDir = cwd w @ [''src'', ''contracts''] in
      if truthy file then Inr (cwd w @ js_or file [], [])
      else if existsSync contractsDir (fs w) then
        (case readdirSync contractsDir (fs w) of
           Inl e \<Rightarrow> Inl e
         | Inr entries \<Rightarrow>
             (case filter (\<lambda>f. endsWith f ''.compact'') entries of
                [] \<Rightarrow> Inl NoCompactFiles
              | first # others \<Rightarrow>
                  Inr (contractsDir @ [first],
                       if length (first # others) > 1
                       then [Info (''Found '' @ string_of_nat (length (first # others)) @
                                   '' contracts, compiling '' @ first)]
                       else [])))
      else Inl NoContractsDir)"

definition compactc :: "world \<Rightarrow> string" where
  "compactc w =
     (if truthy (COMPACT_HOME w) then show_path (js_or (COMPACT_HOME w) [] @ [''compactc''])
      else ''compactc'')"

definition compile_failed :: "event list \<Rightarrow> error \<Rightarrow> world \<Rightarrow> status \<times> event list \<times> world" where
  "compile_failed log e w = (Exit 1, log @ [Fail ''Compilation failed'', Error (message e)], w)"

text \<open>
  In watch mode the action registers the listener below and keeps the process running.
  Otherwise it compiles once; the listing of the output files that follows is console
  output only.
\<close>

definition compileContract ::
  "path option \<Rightarrow> CompileOptions \<Rightarrow> world \<Rightarrow> status \<times> event list \<times> world" where
  "compileContract file options w =
     (case find_contract file w of
        Inl e \<Rightarrow> compile_failed [] e w
      | Inr (contractFile, log) \<Rightarrow>
          if \<not> existsSync contractFile (fs w)
          then compile_failed log (ContractFileNotFound contractFile) w
          else
            (case exec (CompactcVersion (compactc w)) w of
               (False, w1) \<Rightarrow>
                compile_failed (log @ [Exec (CompactcVersion (compactc w))]) CompilerNotFound w1
             | (True, w1) \<Rightarrow>
                (let outputDir = cwd w @ js_or (output options) [''build''];
                    compileCmd = Compactc (compactc w) contractFile outputDir;
                    log1 = log @ [Exec (CompactcVersion (compactc w))]
                in
                  (case ensureDirSync outputDir (fs w1) of
                     (Some e, f') \<Rightarrow> compile_failed log1 e (w1\<lparr>fs := f'\<rparr>)
                   | (None, f') \<Rightarrow>
                      if CompileOptions.watch options
                      then (Running, log1 @ [Succeed ''Watching for changes...''], w1\<lparr>fs := f'\<rparr>)
                      else
                        (case exec compileCmd (w1\<lparr>fs := f'\<rparr>) of
                           (False, w2) \<Rightarrow>
                             compile_failed (log1 @ [Exec compileCmd]) (CommandFailed compileCmd) w2
                         | (True, w2) \<Rightarrow>
                             (Exit 0,
                              log1 @ [Exec compileCmd, Succeed ''Contract compiled successfully!''],
                              w2))))))"

subsection \<open>Watch mode\<close>

text \<open>
  The state the listener closes over: the in-flight flag \<^verbatim>\<open>compiling\<close>, together with
  the world and the events so far. There is no other state: nothing records a change
  for later.
\<close>

record watcher =
  compiling :: bool
  seen :: "event list"
  around :: world

text \<open>
  The listener registered with \<^verbatim>\<open>fs.watchFile\<close>, run once per change notification.
  The compiler is invoked synchronously, and the flag is cleared whether the compiler
  succeeds or fails.
\<close>

definition on_change :: "command \<Rightarrow> watcher \<Rightarrow> watcher" where
  "on_change compileCmd s =
     (if \<not> compiling s then
        (let s1 = s\<lparr>compiling := True\<rparr> in
         case exec compileCmd (around s1) of
           (True, w') \<Rightarrow>
             s1\<lparr>compiling := False, seen := seen s1 @ [Exec compileCmd], around := w'\<rparr>
         | (False, w') \<Rightarrow>
             s1\<lparr>compiling := False,
                seen := seen s1 @ [Exec compileCmd, Error ''Compilation failed''],
                around := w'\<rparr>)
      else s)"

text \<open>
  \<open>n\<close> change notifications, delivered one after the other, and the compiler
  invocations among the events.
\<close>

definition notify :: "command \<Rightarrow> nat \<Rightarrow> watcher \<Rightarrow> watcher" where
  "notify compileCmd n s = (on_change compileCmd ^^ n) s"


subsection \<open>\<^verbatim>\<open>verify\<close> and \<^verbatim>\<open>interact\<close>\<close>

definition verifyContract :: "string \<Rightarrow> world \<Rightarrow> status \<times> event list \<times> world" where
  "verifyContract address w = (Exit 0, [Succeed ''Contract verified successfully!''], w)"

definition interactWithContract :: "string \<Rightarrow> world \<Rightarrow> status \<times> event list \<times> world" where
  "interactWithContract address w = (Exit 0, [], w)"

section \<open>\<^verbatim>\<open>midnight test\<close>\<close>

record TestOptions =
  watch :: bool
  coverage :: bool
  verbose :: bool

definition sampleTest :: "string list" where
  "sampleTest =
   [''import { describe, it, expect } from '@jest/globals';'',
    ''import { Contract } from '../src/contracts/Counter';'',
    '''',
    ''describe('Counter Contract', () => {'',
    ''  let contract: Contract;'',
    '''',
    ''  beforeEach(() => {'',
    ''    contract = new Contract();'',
    ''  });'',
    '''',
    ''  it('should increment counter', async () => {'',
    ''    const initialCount = await contract.getCount();'',
    ''    await contract.increment();'',
    ''    const newCount = await contract.getCount();'',
    ''    expect(newCount).toBe(initialCount + 1);'',
    ''  });'',
    '''',
    ''  it('should return correct count', async () => {'',
    ''    const count = await contract.getCount();'',
    ''    expect(count).toBeGreaterThanOrEqual(0);'',
    ''  });'',
    ''});'']"

definition testCommand :: "TestOptions \<Rightarrow> world \<Rightarrow> status \<times> event list \<times> world" where
  "testCommand options w =
     (let testDir = cwd w @ [''tests''];
          testCmd = NpxJest (TestOptions.watch options) (coverage options) (TestOptions.verbose options);
          scaffold = \<not> existsSync testDir (fs w);
          log = (if scaffold then [Warn ''No tests directory found. Creating one...''] else [])
      in
        (case (if scaffold
              then run_all [ensureDirSync testDir,
                            writeFileSync (testDir @ [''Counter.test.ts'']) (Text sampleTest)] (fs w)
              else (None, fs w)) of
          (Some e, f') \<Rightarrow>
            (Exit 1, log @ [Fail ''Test execution failed'', Error (message e)], w\<lparr>fs := f'\<rparr>)
        | (None, f') \<Rightarrow>
            (case exec testCmd (w\<lparr>fs := f'\<rparr>) of
               (True, w') \<Rightarrow> (Exit 0, log @ [Exec testCmd, Succeed ''All tests passed!''], w')
             | (False, w') \<Rightarrow>
                 (Exit 1,
                  log @ [Exec testCmd, Fail ''Some tests failed''] @
                  (if \<not> TestOptions.verbose options
                   then [Error ''Test failures detected. Run with --verbose for details.'']
                   else []),
                  w'))))"

section \<open>\<^verbatim>\<open>midnight proof-server\<close>\<close>

text \<open>The port option is the text given on the command line.\<close>

record ProofServerOptions =
  port :: "string option"
  detached :: bool
  verbose :: bool

definition start_failed :: "event list \<Rightarrow> error \<Rightarrow> world \<Rightarrow> status \<times> event list \<times> world" where
  "start_failed log e w =
     (Exit 1, log @ [Fail ''Failed to start proof server'', Error (message e)], w)"

definition startProofServer :: "ProofServerOptions \<Rightarrow> world \<Rightarrow> status \<times> event list \<times> world" where
  "startProofServer options w =
     (case exec DockerVersion w of
        (False, w1) \<Rightarrow> start_failed [Exec DockerVersion] DockerNotInstalled w1
      | (True, w1) \<Rightarrow>
          (case exec DockerInfo w1 of
             (False, w2) \<Rightarrow> start_failed [Exec DockerVersion, Exec DockerInfo] DockerNotRunning w2
           | (True, w2) \<Rightarrow>
               (let p = js_or (ProofServerOptions.port options) ''6300'';
                    log = [Exec DockerVersion, Exec DockerInfo, Exec (Curl p)]
                in
                 (case exec (Curl p) w2 of
                    (True, w3) \<Rightarrow>
                     (Exit 0, log @ [Warn (''Proof server is already running on port '' @ p)], w3)
                  | (False, w3) \<Rightarrow>
                     (case exec DockerPull w3 of
                        (pulled, w4) \<Rightarrow>
                          (let log1 =
                                log @ [Exec DockerPull] @
                                (if pulled then []
                                 else [Warn ''Could not pull latest image, using local version''])
                          in
                            if detached options then
                              (case exec (DockerRun True p) w4 of
                                 (True, w5) \<Rightarrow>
                                   (Exit 0,
                                    log1 @ [Exec (DockerRun True p),
                                            Succeed (''Proof server started on port '' @ p @
                                                     '' (detached)'')],
                                    w5)
                               | (False, w5) \<Rightarrow>
                                   start_failed (log1 @ [Exec (DockerRun True p)])
                                     (CommandFailed (DockerRun True p)) w5)
                            else
                              (Running,
                               log1 @ [Succeed (''Proof server starting on port '' @ p @ ''...''),
                                       Exec (DockerRun False p)],
                               snd (exec (DockerRun False p) w4))))))))"

definition stopProofServer :: "world \<Rightarrow> status \<times> event list \<times> world" where
  "stopProofServer w =
     (case exec DockerStop w of
        (True, w') \<Rightarrow> (Exit 0, [Exec DockerStop, Succeed ''Proof server stopped''], w')
      | (False, w') \<Rightarrow> (Exit 0, [Exec DockerStop, Warn ''Proof server is not running''], w'))"

definition checkStatus :: "world \<Rightarrow> status \<times> event list \<times> world" where
  "checkStatus w =
     (case docker_ps_names w of
        None \<Rightarrow>
          (Exit 0,
           [Exec DockerPsNames, Fail ''Failed to check status'',
            Error (message (CommandFailed DockerPsNames))],
           w)
      | Some containerRunning \<Rightarrow>
          if containerRunning \<noteq> [] then
            (case exec (Curl ''6300'') w of
               (True, w1) \<Rightarrow>
                 (case exec DockerPsTable w1 of
                    (True, w2) \<Rightarrow>
                      (Exit 0,
                       [Exec DockerPsNames, Exec (Curl ''6300''),
                        Succeed ''Proof server is running and healthy'', Exec DockerPsTable],
                       w2)
                  | (False, w2) \<Rightarrow>
                      (Exit 0,
                       [Exec DockerPsNames, Exec (Curl ''6300''),
                        Succeed ''Proof server is running and healthy'', Exec DockerPsTable,
                        Warn ''Proof server container is running but not responding''],
                       w2))
             | (False, w1) \<Rightarrow>
                 (Exit 0,
                  [Exec DockerPsNames, Exec (Curl ''6300''),
                   Warn ''Proof server container is running but not responding''],
                  w1))
          else (Exit 0, [Exec DockerPsNames, Info ''Proof server is not running''], w))"

text \<open>
  \<^verbatim>\<open>viewLogs\<close> spawns \<^verbatim>\<open>docker logs\<close>; for this command \<open>succeeds\<close> says whether the
  child process could be started.
\<close>

definition viewLogs :: "bool \<Rightarrow> world \<Rightarrow> status \<times> event list \<times> world" where
  "viewLogs follow w =
     (case exec (DockerLogs follow) w of
        (True, w') \<Rightarrow> (if follow then Running else Exit 0, [Exec (DockerLogs follow)], w')
      | (False, w') \<Rightarrow>
          (Exit 0,
           [Exec (DockerLogs follow), Error ''No logs available. Is the proof server running?''],
           w'))"

text \<open>A run reports a failure when it prints a failure message.\<close>

fun is_failure :: "event \<Rightarrow> bool" where
  "is_failure (Fail m) = True"
| "is_failure (Error m) = True"
| "is_failure e = False"

definition reports_failure :: "event list \<Rightarrow> bool" where
  "reports_failure log = list_ex is_failure log"

section \<open>Example worlds\<close>

text \<open>
  A working directory \<^verbatim>\<open>/home\<close> with nothing in it, a container runtime that is installed
  and idle, and external commands that all succeed.
\<close>

definition bare :: world where
  "bare =
     \<lparr>fs = [[] \<mapsto> Dir [''home''], [''home''] \<mapsto> Dir []],
      cwd = [''home''],
      COMPACT_HOME = None,
      container = None,
      server_healthy = True,
      answering = [],
      succeeds = (\<lambda>c. True)\<rparr>"

text \<open>
  The bare world where every external command fails, as when no container runtime is
  installed.
\<close>

definition nothing_works :: world where
  "nothing_works = bare\<lparr>succeeds := (\<lambda>c. False)\<rparr>"


text \<open>
  The bare world with a project in it: a configuration file naming \<^verbatim>\<open>mainnet\<close>, a compiled
  contract where the deploy command looks for it, and a proof server that runs and
  answers on port 6300.
\<close>

definition project :: world where
  "project =
     bare\<lparr>container := Some ''6300'',
          fs :=
       [[] \<mapsto> Dir [''home''],
        [''home''] \<mapsto> Dir [''midnight.config.json'', ''build''],
        [''home'', ''midnight.config.json''] \<mapsto>
          File (ConfigDoc (midnightConfig\<lparr>Config.network := Some ''mainnet''\<rparr>)),
        [''home'', ''build''] \<mapsto> Dir [''contract.wasm''],
        [''home'', ''build'', ''contract.wasm''] \<mapsto> File (Text [])]\<rparr>"

text \<open>
  A working directory whose \<^verbatim>\<open>src/contracts\<close> lists the given names, each of them a file.
\<close>

definition with_contracts :: "string list \<Rightarrow> world" where
  "with_contracts names =
     bare\<lparr>fs :=
       foldr (\<lambda>n f. f([''home'', ''src'', ''contracts'', n] \<mapsto> File (Text []))) names
         [[] \<mapsto> Dir [''home''],
          [''home''] \<mapsto> Dir [''src''],
          [''home'', ''src''] \<mapsto> Dir [''contracts''],
          [''home'', ''src'', ''contracts''] \<mapsto> Dir names]\<rparr>"

definition compile_once :: CompileOptions where
  "compile_once = \<lparr>output = None, CompileOptions.watch = False, CompileOptions.verbose = False\<rparr>"






text \<open>
  The bare world where a directory \<^verbatim>\<open>app\<close> with a file in it already exists.
\<close>

definition occupied :: world where
  "occupied =
     bare\<lparr>fs :=
       [[] \<mapsto> Dir [''home''],
        [''home''] \<mapsto> Dir [''app''],
        [''home'', ''app''] \<mapsto> Dir [''notes.txt''],
        [''home'', ''app'', ''notes.txt''] \<mapsto> File (Text [''keep''])]\<rparr>"

text \<open>Deploy options as the command-line parser passes them for \<^verbatim>\<open>--network <n>\<close>.\<close>

definition to_network :: "string \<Rightarrow> DeployOptions" where
  "to_network n =
     \<lparr>DeployOptions.network = n, contractPath = None, configPath = None,
      DeployOptions.verbose = False\<rparr>"

text \<open>
  The options the command-line parser passes to the initializer when no flag is given,
  and a user who accepts every default.
\<close>

definition no_flags :: InitOptions where
  "no_flags = \<lparr>InitOptions.template = None, typescript = Some True, install = Some True\<rparr>"

definition accepts_defaults :: Keyboard where
  "accepts_defaults =
     \<lparr>typed_names = [[]], picked_template = ''basic-dapp'',
      confirmed_typescript = True, confirmed_install = True\<rparr>"

section \<open>Name validation\<close>

lemma name_class_alphabet:
  "name_class c = (c \<in> set ''abcdefghijklmnopqrstuvwxyz0123456789-'')"
  by (cases c) (auto simp: name_class_def in_range_def)

lemma one_or_more_iff: "one_or_more cls s = (s \<noteq> [] \<and> (\<forall>c \<in> set s. cls c))"
  by (induction cls s rule: one_or_more.induct) auto

lemma validate_iff: "(validate s = Valid) = lowercase_alphanumeric_hyphen s"
  unfolding validate_def lowercase_alphanumeric_hyphen_def one_or_more_iff
  by (auto simp: name_class_alphabet simp del: set_simps)

lemma validate_nonempty: "validate s = Valid \<Longrightarrow> s \<noteq> []"
  by (simp add: validate_iff lowercase_alphanumeric_hyphen_def)

lemma input_prompt_valid: "input_prompt d check typed = Some n \<Longrightarrow> check n = Valid"
  unfolding input_prompt_def by (auto simp: find_Some_iff)

lemma input_prompt_none:
  "(input_prompt d check typed = None) =
   (\<forall>l \<in> set typed. check (if l = [] then d else l) \<noteq> Valid)"
  unfolding input_prompt_def by (auto simp: find_None_iff)

lemma prompt_valid:
  "prompt name_arg options kb = Some answers \<Longrightarrow> validate (Answers.name answers) = Valid"
  unfolding prompt_def by (auto split: option.splits dest: input_prompt_valid)

lemma prompt_none:
  "(prompt name_arg options kb = None) =
   (\<forall>l \<in> set (typed_names kb).
      validate (if l = [] then js_or name_arg ''my-midnight-app'' else l) \<noteq> Valid)"
proof -
  have "(prompt name_arg options kb = None) =
        (input_prompt (js_or name_arg ''my-midnight-app'') validate (typed_names kb) = None)"
    unfolding prompt_def
    by (cases "input_prompt (js_or name_arg ''my-midnight-app'') validate (typed_names kb)")
      simp_all
  then show ?thesis by (simp only: input_prompt_none)
qed

lemma js_or_nonempty: "s \<noteq> [] \<Longrightarrow> js_or (Some s) b = s"
  by (simp add: js_or_def)

lemma project_name_answered:
  assumes "prompt name_arg options kb = Some answers"
  shows "ProjectOptions.name (project_options name_arg options answers) = Answers.name answers"
proof -
  have "Answers.name answers \<noteq> []"
    using assms by (blast dest: prompt_valid validate_nonempty)
  then show ?thesis by (simp add: project_options_def js_or_nonempty)
qed

lemma init_interrupted:
  "prompt name_arg options kb = None \<Longrightarrow> initCommand name_arg options kb w = (Interrupted, [], w)"
  by (simp add: initCommand_def)

lemma init_existing:
  assumes "prompt name_arg options kb = Some answers"
    and "existsSync (cwd w @ [Answers.name answers]) (fs w)"
  shows "initCommand name_arg options kb w =
           (Exit 1, [Error (''Directory '' @ Answers.name answers @ '' already exists!'')], w)"
  using assms by (simp add: initCommand_def project_name_answered Let_def)

lemma validate_examples: "validate ''my-app-1'' = Valid \<and> validate ''My App'' \<noteq> Valid"
  by (simp add: validate_def name_class_def in_range_def)

text \<open>
  Claim C2. The name question accepts an input exactly when it matches
  \<^verbatim>\<open>^[a-z0-9-]+$\<close>, that is, when it is a non-empty string of lowercase letters, digits
  and hyphens: \<^verbatim>\<open>my-app-1\<close> is accepted and \<^verbatim>\<open>My App\<close> is rejected. When none of the
  names the user offers is accepted, the initializer ends without touching the world;
  and whenever a run of the initializer changes the world, the project name it used is
  an accepted one.
\<close>

theorem name_validation:
  "((validate input = Valid) = lowercase_alphanumeric_hyphen input)
   \<and> validate ''my-app-1'' = Valid
   \<and> validate ''My App'' \<noteq> Valid
   \<and> ((\<forall>l \<in> set (typed_names kb).
          validate (if l = [] then js_or name_arg ''my-midnight-app'' else l) \<noteq> Valid)
        \<longrightarrow> initCommand name_arg options kb w = (Interrupted, [], w))
   \<and> (initCommand name_arg options kb w = (st, log, w') \<and> w' \<noteq> w
        \<longrightarrow> (\<exists>answers. prompt name_arg options kb = Some answers
              \<and> validate (ProjectOptions.name (project_options name_arg options answers)) = Valid))"
proof -
  have stop: "(\<forall>l \<in> set (typed_names kb).
                 validate (if l = [] then js_or name_arg ''my-midnight-app'' else l) \<noteq> Valid)
              \<longrightarrow> initCommand name_arg options kb w = (Interrupted, [], w)"
    using prompt_none [of name_arg options kb] init_interrupted [of name_arg options kb w]
    by blast
  have change: "initCommand name_arg options kb w = (st, log, w') \<and> w' \<noteq> w
        \<longrightarrow> (\<exists>answers. prompt name_arg options kb = Some answers
              \<and> validate (ProjectOptions.name (project_options name_arg options answers)) = Valid)"
  proof (cases "prompt name_arg options kb")
    case None
    then show ?thesis by (simp add: init_interrupted)
  next
    case (Some answers)
    then show ?thesis by (simp add: project_name_answered prompt_valid)
  qed
  from validate_iff [of input] validate_examples stop change show ?thesis
    by (intro conjI) blast+
qed

theorem name_validation_witness:
  "lowercase_alphanumeric_hyphen ''my-app-1''
   \<and> \<not> lowercase_alphanumeric_hyphen ''My App''
   \<and> initCommand (Some ''My App'') no_flags
        (accepts_defaults\<lparr>typed_names := [[], ''My App'', ''x_y'']\<rparr>) bare
      = (Interrupted, [], bare)"
proof -
  have rejected:
    "\<forall>l \<in> set (typed_names (accepts_defaults\<lparr>typed_names := [[], ''My App'', ''x_y'']\<rparr>)).
       validate (if l = [] then js_or (Some ''My App'') ''my-midnight-app'' else l) \<noteq> Valid"
    by (simp add: js_or_def validate_def name_class_def in_range_def)
  have a: "lowercase_alphanumeric_hyphen ''my-app-1''"
    using name_validation [of "''my-app-1''" accepts_defaults None no_flags bare "Exit 0" "[]" bare]
    by blast
  have b: "\<not> lowercase_alphanumeric_hyphen ''My App''"
    using name_validation [of "''My App''" accepts_defaults None no_flags bare "Exit 0" "[]" bare]
    by blast
  have c: "initCommand (Some ''My App'') no_flags
        (accepts_defaults\<lparr>typed_names := [[], ''My App'', ''x_y'']\<rparr>) bare
      = (Interrupted, [], bare)"
    using rejected
      name_validation [of "[]" "accepts_defaults\<lparr>typed_names := [[], ''My App'', ''x_y'']\<rparr>"
        "Some ''My App''" no_flags bare "Exit 0" "[]" bare]
    by blast
  from a b c show ?thesis by blast
qed

section \<open>Initialization into an existing directory\<close>

text \<open>
  Claim C3. When the path of the project, the working directory extended by the
  accepted name, already exists as a directory, the initializer exits with code 1
  after printing one failure line: it runs no command, and it leaves the whole world,
  and so the directory and everything below it, as it was.
\<close>

theorem init_existing_directory:
  assumes "prompt name_arg options kb = Some answers"
    and "fs w (cwd w @ [Answers.name answers]) = Some (Dir entries)"
  shows "initCommand name_arg options kb w =
           (Exit 1, [Error (''Directory '' @ Answers.name answers @ '' already exists!'')], w)"
  using assms by (simp add: init_existing existsSync_def)

theorem init_existing_directory_witness:
  "initCommand (Some ''app'') no_flags accepts_defaults occupied =
     (Exit 1, [Error ''Directory app already exists!''], occupied)"
proof -
  have asked: "prompt (Some ''app'') no_flags accepts_defaults =
      Some \<lparr>Answers.name = ''app'', Answers.template = Some ''basic-dapp'',
            Answers.useTypeScript = None, Answers.installDependencies = None\<rparr>"
    by (simp add: prompt_def input_prompt_def js_or_def validate_def name_class_def
        in_range_def no_flags_def accepts_defaults_def)
  have there: "fs occupied (cwd occupied @
      [Answers.name \<lparr>Answers.name = ''app'', Answers.template = Some ''basic-dapp'',
            Answers.useTypeScript = None, Answers.installDependencies = None\<rparr>]) =
      Some (Dir [''notes.txt''])"
    by (simp add: occupied_def bare_def)
  from init_existing_directory [OF asked there] show ?thesis by simp
qed

section \<open>The deployment ledger\<close>

lemma exec_fs: "fs (snd (exec c w)) = fs w"
  by (cases c) simp_all

lemma exec_cwd: "cwd (snd (exec c w)) = cwd w"
  by (cases c) simp_all

lemma exec_keeps: "exec c w = (ok, w') \<Longrightarrow> fs w' = fs w \<and> cwd w' = cwd w"
  using exec_fs [of c w] exec_cwd [of c w] by simp



lemma add_entry_other: "q \<noteq> d \<Longrightarrow> add_entry d n f q = f q"
  by (simp add: add_entry_def split: option.splits node.splits)

lemma butlast_neq: "p \<noteq> [] \<Longrightarrow> butlast p \<noteq> p"
  by (metis length_butlast diff_less length_greater_0_conv less_irrefl zero_less_one)



lemma ledger_depends: "fs w' = fs w \<Longrightarrow> cwd w' = cwd w \<Longrightarrow> ledger w' = ledger w"
  by (simp add: ledger_def)


















text \<open>
  Claim C5. When the configuration file does not exist, or it is read and the compiled
  contract does not exist at the resolved path, deploy exits with code 1 after a message
  that names the missing path. Its events are the two failure messages only: no external
  command was run and no deployment was simulated. The world it returns is the world it
  was given, so the ledger file is as before.
\<close>

theorem deploy_missing_inputs:
  "(\<not> existsSync (config_file options w) (fs w) \<longrightarrow>
      deployCommand options rnd now w =
        (Exit 1,
         [Fail ''Deployment failed'',
          Error (''Configuration file not found: '' @ show_path (config_file options w))],
         w))
   \<and> (readJsonSync_config (config_file options w) (fs w) = Inr config \<and>
       \<not> existsSync (contract_file options config w) (fs w) \<longrightarrow>
      deployCommand options rnd now w =
        (Exit 1,
         [Fail ''Deployment failed'',
          Error (''Compiled contract not found at '' @ show_path (contract_file options config w) @
                 ''. Run 'npm run compile-contract' first.'')],
         w))"
  by (auto simp: deployCommand_def deploy_failed_def Let_def existsSync_def
      readJsonSync_config_def split: option.splits node.splits content.splits)

theorem deploy_missing_inputs_witness:
  "deployCommand (to_network ''testnet'') (\<lambda>k. 0) ''today'' bare =
     (Exit 1,
      [Fail ''Deployment failed'',
       Error ''Configuration file not found: /home/midnight.config.json''],
      bare)
   \<and> deployCommand (to_network ''testnet'') (\<lambda>k. 0) ''today''
        (project\<lparr>fs := (fs project)([''home'', ''build'', ''contract.wasm''] := None)\<rparr>) =
     (Exit 1,
      [Fail ''Deployment failed'',
       Error ''Compiled contract not found at /home/build/contract.wasm. Run 'npm run compile-contract' first.''],
      project\<lparr>fs := (fs project)([''home'', ''build'', ''contract.wasm''] := None)\<rparr>)"
proof -
  let ?w = "project\<lparr>fs := (fs project)([''home'', ''build'', ''contract.wasm''] := None)\<rparr>"
  let ?c = "midnightConfig\<lparr>Config.network := Some ''mainnet''\<rparr>"
  have a: "\<not> existsSync (config_file (to_network ''testnet'') bare) (fs bare)"
    by (simp add: existsSync_def config_file_def to_network_def bare_def js_or_def)
  have b: "readJsonSync_config (config_file (to_network ''testnet'') ?w) (fs ?w) = Inr ?c
       \<and> \<not> existsSync (contract_file (to_network ''testnet'') ?c ?w) (fs ?w)"
    by (simp add: existsSync_def config_file_def contract_file_def to_network_def project_def
        bare_def js_or_def readJsonSync_config_def midnightConfig_def)
  have pa: "show_path (config_file (to_network ''testnet'') bare) = ''/home/midnight.config.json''"
    by (simp add: show_path_def config_file_def to_network_def bare_def js_or_def)
  have pb: "show_path (contract_file (to_network ''testnet'') ?c ?w) = ''/home/build/contract.wasm''"
    by (simp add: show_path_def contract_file_def to_network_def project_def bare_def js_or_def
        midnightConfig_def)
  from a pa deploy_missing_inputs [of "to_network ''testnet''" bare "\<lambda>k. 0" "''today''" ?c]
  have one: "deployCommand (to_network ''testnet'') (\<lambda>k. 0) ''today'' bare =
     (Exit 1,
      [Fail ''Deployment failed'',
       Error ''Configuration file not found: /home/midnight.config.json''],
      bare)"
    by simp
  from b pb deploy_missing_inputs [of "to_network ''testnet''" ?w "\<lambda>k. 0" "''today''" ?c]
  have two: "deployCommand (to_network ''testnet'') (\<lambda>k. 0) ''today'' ?w =
     (Exit 1,
      [Fail ''Deployment failed'',
       Error ''Compiled contract not found at /home/build/contract.wasm. Run 'npm run compile-contract' first.''],
      ?w)"
    by simp
  from one two show ?thesis by blast
qed

section \<open>The network of a deployment\<close>














section \<open>Choosing the contract to compile\<close>

lemma find_contract_listing:
  assumes "fs w (cwd w @ [''src'', ''contracts'']) = Some (Dir entries)"
  shows "find_contract None w =
     (case filter (\<lambda>f. endsWith f ''.compact'') entries of
        [] \<Rightarrow> Inl NoCompactFiles
      | first # others \<Rightarrow>
          Inr (cwd w @ [''src'', ''contracts'', first],
               if others = [] then []
               else [Info (''Found '' @ string_of_nat (Suc (length others)) @
                           '' contracts, compiling '' @ first)]))"
  using assms by (simp add: find_contract_def existsSync_def readdirSync_def split: list.splits)

lemma compileContract_found:
  assumes "find_contract file w = Inr (cf, notes)"
    and "compileContract file options w = (st, log, w')"
  shows "\<exists>rest. log = notes @ rest \<and> (\<forall>m. Info m \<notin> set rest)
            \<and> (\<forall>c i out. Exec (Compactc c i out) \<in> set rest \<longrightarrow> i = cf)"
  using assms
  by (auto simp: compileContract_def compile_failed_def Let_def
      split: sum.splits prod.splits if_splits bool.splits option.splits)

lemma compileContract_none_found:
  "find_contract file w = Inl e \<Longrightarrow>
   compileContract file options w = (Exit 1, [Fail ''Compilation failed'', Error (message e)], w)"
  by (simp add: compileContract_def compile_failed_def)

text \<open>
  Claim C4. Compile without a file argument, in a working directory whose
  \<^verbatim>\<open>src/contracts\<close> is a directory: with no entry ending in \<^verbatim>\<open>.compact\<close> the command
  fails with the error \<^verbatim>\<open>No .compact files found in src/contracts/\<close> and exit code 1;
  with exactly one, that file is chosen and no notice is given; with several, the first
  in listing order is chosen and one notice names their number and the chosen file
  (the spinner's \<^verbatim>\<open>info\<close> message). In a run that chose a file, every compiler
  invocation is for that file, and the run has a notice exactly when there were several
  candidates.
\<close>

theorem compile_default_selection:
  assumes "fs w (cwd w @ [''src'', ''contracts'']) = Some (Dir entries)"
    and "candidates = filter (\<lambda>f. endsWith f ''.compact'') entries"
  shows
   "(candidates = [] \<longrightarrow>
       compileContract None options w =
         (Exit 1,
          [Fail ''Compilation failed'', Error ''No .compact files found in src/contracts/''], w))
    \<and> (\<forall>first. candidates = [first] \<longrightarrow>
          find_contract None w = Inr (cwd w @ [''src'', ''contracts'', first], []))
    \<and> (\<forall>first second more. candidates = first # second # more \<longrightarrow>
          find_contract None w =
            Inr (cwd w @ [''src'', ''contracts'', first],
                 [Info (''Found '' @ string_of_nat (length candidates) @
                        '' contracts, compiling '' @ first)]))
    \<and> (\<forall>first others st log w'.
          candidates = first # others \<and> compileContract None options w = (st, log, w') \<longrightarrow>
            (\<forall>c i out. Exec (Compactc c i out) \<in> set log \<longrightarrow>
               i = cwd w @ [''src'', ''contracts'', first])
          \<and> ((\<exists>m. Info m \<in> set log) = (others \<noteq> [])))"
proof (intro conjI allI impI)
  assume "candidates = []"
  then have "find_contract None w = Inl NoCompactFiles"
    using assms by (simp add: find_contract_listing)
  then show "compileContract None options w =
         (Exit 1,
          [Fail ''Compilation failed'', Error ''No .compact files found in src/contracts/''], w)"
    by (simp add: compileContract_none_found)
next
  fix first assume "candidates = [first]"
  then show "find_contract None w = Inr (cwd w @ [''src'', ''contracts'', first], [])"
    using assms by (simp add: find_contract_listing)
next
  fix first second more assume "candidates = first # second # more"
  then show "find_contract None w =
            Inr (cwd w @ [''src'', ''contracts'', first],
                 [Info (''Found '' @ string_of_nat (length candidates) @
                        '' contracts, compiling '' @ first)])"
    using assms by (simp add: find_contract_listing)
next
  fix first others st log w' c i out
  assume a: "candidates = first # others \<and> compileContract None options w = (st, log, w')"
    and b: "Exec (Compactc c i out) \<in> set log"
  from a assms obtain notices where
    f: "find_contract None w = Inr (cwd w @ [''src'', ''contracts'', first], notices)"
    and n: "\<forall>e \<in> set notices. \<exists>m. e = Info m"
    by (auto simp: find_contract_listing)
  from compileContract_found [OF f] a obtain rest where
    r: "log = notices @ rest"
      "\<forall>c i out. Exec (Compactc c i out) \<in> set rest \<longrightarrow> i = cwd w @ [''src'', ''contracts'', first]"
    by blast
  from b r(1) n have "Exec (Compactc c i out) \<in> set rest" by auto
  with r(2) show "i = cwd w @ [''src'', ''contracts'', first]" by blast
next
  fix first others st log w'
  assume a: "candidates = first # others \<and> compileContract None options w = (st, log, w')"
  let ?notices = "if others = [] then []
               else [Info (''Found '' @ string_of_nat (Suc (length others)) @
                           '' contracts, compiling '' @ first)]"
  from a assms have
    f: "find_contract None w = Inr (cwd w @ [''src'', ''contracts'', first], ?notices)"
    by (simp add: find_contract_listing)
  from compileContract_found [OF f] a obtain rest where
    r: "log = ?notices @ rest" "\<forall>m. Info m \<notin> set rest"
    by blast
  show "(\<exists>m. Info m \<in> set log) = (others \<noteq> [])"
  proof (cases "others = []")
    case True
    with r show ?thesis by simp
  next
    case False
    with r(1) show ?thesis by auto
  qed
qed

lemma endsWith_examples:
  "\<not> endsWith ''notes.md'' ''.compact''" "endsWith ''Counter.compact'' ''.compact''"
  "endsWith ''b.compact'' ''.compact''" "endsWith ''a.compact'' ''.compact''"
  by (simp_all add: endsWith_def)

theorem compile_default_selection_witness:
  "compileContract None compile_once (with_contracts [''notes.md'']) =
     (Exit 1, [Fail ''Compilation failed'', Error ''No .compact files found in src/contracts/''],
      with_contracts [''notes.md''])
   \<and> find_contract None (with_contracts [''notes.md'', ''Counter.compact'']) =
       Inr ([''home'', ''src'', ''contracts'', ''Counter.compact''], [])
   \<and> find_contract None (with_contracts [''b.compact'', ''notes.md'', ''a.compact'']) =
       Inr ([''home'', ''src'', ''contracts'', ''b.compact''],
            [Info ''Found 2 contracts, compiling b.compact''])"
proof -
  have dir: "\<And>names. fs (with_contracts names) (cwd (with_contracts names) @ [''src'', ''contracts''])
      = Some (Dir names)"
  proof -
    fix names
    have "\<And>f. f [''home'', ''src'', ''contracts''] = Some (Dir names) \<Longrightarrow>
      foldr (\<lambda>n f. f([''home'', ''src'', ''contracts'', n] \<mapsto> File (Text []))) ns f
        [''home'', ''src'', ''contracts''] = Some (Dir names)" for ns
      by (induction ns) simp_all
    then show "fs (with_contracts names) (cwd (with_contracts names) @ [''src'', ''contracts''])
      = Some (Dir names)"
      by (simp add: with_contracts_def bare_def)
  qed
  have cwd: "\<And>names. cwd (with_contracts names) = [''home'']"
    by (simp add: with_contracts_def bare_def)
  have zero: "[] = filter (\<lambda>f. endsWith f ''.compact'') [''notes.md'']"
    by (simp add: endsWith_examples)
  have one: "[''Counter.compact''] =
      filter (\<lambda>f. endsWith f ''.compact'') [''notes.md'', ''Counter.compact'']"
    by (simp add: endsWith_examples)
  have two: "[''b.compact'', ''a.compact''] =
      filter (\<lambda>f. endsWith f ''.compact'') [''b.compact'', ''notes.md'', ''a.compact'']"
    by (simp add: endsWith_examples)
  from compile_default_selection [OF dir zero, of compile_once]
  have a: "compileContract None compile_once (with_contracts [''notes.md'']) =
     (Exit 1, [Fail ''Compilation failed'', Error ''No .compact files found in src/contracts/''],
      with_contracts [''notes.md''])"
    by blast
  from compile_default_selection [OF dir one, of compile_once]
  have b: "find_contract None (with_contracts [''notes.md'', ''Counter.compact'']) =
       Inr ([''home'', ''src'', ''contracts'', ''Counter.compact''], [])"
    by (simp add: cwd)
  from compile_default_selection [OF dir two, of compile_once]
  have c: "find_contract None (with_contracts [''b.compact'', ''notes.md'', ''a.compact'']) =
       Inr ([''home'', ''src'', ''contracts'', ''b.compact''],
            [Info ''Found 2 contracts, compiling b.compact''])"
    by (simp add: cwd string_of_nat.simps)
  from a b c show ?thesis by blast
qed

section \<open>The watch listener\<close>

lemma on_change_busy: "compiling s \<Longrightarrow> on_change cmd s = s"
  by (simp add: on_change_def)


lemma notify_busy: "compiling s \<Longrightarrow> notify cmd n s = s"
  by (induction n) (simp_all add: notify_def on_change_busy)




section \<open>The port of the status probe\<close>


lemma exec_succeeds: "succeeds (snd (exec c w)) = succeeds w"
  by (cases c) simp_all





section \<open>The TypeScript flag\<close>



section \<open>Exit codes\<close>

lemma reports_failure_simps:
  "reports_failure [] = False"
  "reports_failure (e # log) = (is_failure e \<or> reports_failure log)"
  "reports_failure (log @ log') = (reports_failure log \<or> reports_failure log')"
  by (simp_all add: reports_failure_def)

lemma init_exit:
  "((fst (initCommand a io kb w) = Exit 1) = reports_failure (fst (snd (initCommand a io kb w))))
   \<and> fst (initCommand a io kb w) \<in> {Exit 0, Exit 1, Interrupted}"
  by (simp add: initCommand_def reports_failure_simps Let_def
      split: option.splits prod.splits bool.splits)

lemma deploy_and_save_status:
  "fst (deploy_and_save cf net rnd now log w) = Exit 0
   \<or> fst (deploy_and_save cf net rnd now log w) = Exit (Suc 0)"
  by (simp add: deploy_and_save_def deploy_failed_def Let_def
      split: sum.splits option.splits prod.splits bool.splits)

lemma deploy_and_save_reports:
  "\<not> reports_failure log \<Longrightarrow>
   reports_failure (fst (snd (deploy_and_save cf net rnd now log w))) =
     (fst (deploy_and_save cf net rnd now log w) = Exit (Suc 0))"
  by (simp add: deploy_and_save_def deploy_failed_def reports_failure_simps Let_def
      split: sum.splits option.splits prod.splits bool.splits)

lemma deploy_exit:
  "((fst (deployCommand options rnd now w) = Exit 1) =
      reports_failure (fst (snd (deployCommand options rnd now w))))
   \<and> fst (deployCommand options rnd now w) \<in> {Exit 0, Exit 1}"
  by (simp add: deployCommand_def deploy_failed_def deploy_and_save_status
      deploy_and_save_reports reports_failure_simps Let_def
      split: sum.splits option.splits prod.splits bool.splits)

lemma test_exit:
  "((fst (testCommand options w) = Exit 1) = reports_failure (fst (snd (testCommand options w))))
   \<and> fst (testCommand options w) \<in> {Exit 0, Exit 1}"
  by (simp add: testCommand_def reports_failure_simps Let_def
      split: sum.splits option.splits prod.splits bool.splits)

lemma find_contract_quiet:
  "find_contract file w = Inr (cf, notices) \<Longrightarrow> \<not> reports_failure notices"
  by (auto simp: find_contract_def reports_failure_simps Let_def
      split: if_splits sum.splits list.splits)

lemma compile_exit:
  "((fst (compileContract file options w) = Exit 1) =
      reports_failure (fst (snd (compileContract file options w))))
   \<and> fst (compileContract file options w) \<in> {Exit 0, Exit 1, Running}"
  by (auto simp: compileContract_def compile_failed_def reports_failure_simps Let_def
      split: sum.splits option.splits prod.splits bool.splits dest: find_contract_quiet)

lemma start_exit:
  "((fst (startProofServer options w) = Exit 1) =
      reports_failure (fst (snd (startProofServer options w))))
   \<and> fst (startProofServer options w) \<in> {Exit 0, Exit 1, Running}"
  by (simp add: startProofServer_def start_failed_def reports_failure_simps Let_def
      split: sum.splits option.splits prod.splits bool.splits)

lemma quiet_exits:
  "fst (stopProofServer w) = Exit 0 \<and> fst (checkStatus w) = Exit 0
   \<and> fst (viewLogs follow w) \<in> {Exit 0, Running}
   \<and> fst (verifyContract address w) = Exit 0 \<and> fst (interactWithContract address w) = Exit 0"
  by (simp add: stopProofServer_def checkStatus_def viewLogs_def verifyContract_def
      interactWithContract_def split: option.splits prod.splits bool.splits)

text \<open>
  The exit codes of all commands. \<^verbatim>\<open>init\<close>, \<^verbatim>\<open>deploy\<close>, \<^verbatim>\<open>test\<close>,
  \<^verbatim>\<open>contract compile\<close> and \<^verbatim>\<open>proof-server start\<close> exit with code 1 exactly when they
  report a failure, and otherwise exit with code 0, or keep running (watch mode, an
  attached server), or, for \<^verbatim>\<open>init\<close>, end at the prompt. \<^verbatim>\<open>proof-server stop\<close>,
  \<^verbatim>\<open>proof-server status\<close>, \<^verbatim>\<open>proof-server logs\<close>, \<^verbatim>\<open>contract verify\<close> and
  \<^verbatim>\<open>contract interact\<close> never exit with a code other than 0, whatever they report.
\<close>

lemma exit_codes:
  "((fst (initCommand a io kb w) = Exit 1) = reports_failure (fst (snd (initCommand a io kb w))))
   \<and> fst (initCommand a io kb w) \<in> {Exit 0, Exit 1, Interrupted}
   \<and> ((fst (deployCommand dopts rnd now w) = Exit 1) =
        reports_failure (fst (snd (deployCommand dopts rnd now w))))
   \<and> fst (deployCommand dopts rnd now w) \<in> {Exit 0, Exit 1}
   \<and> ((fst (testCommand topts w) = Exit 1) = reports_failure (fst (snd (testCommand topts w))))
   \<and> fst (testCommand topts w) \<in> {Exit 0, Exit 1}
   \<and> ((fst (compileContract given copts w) = Exit 1) =
        reports_failure (fst (snd (compileContract given copts w))))
   \<and> fst (compileContract given copts w) \<in> {Exit 0, Exit 1, Running}
   \<and> ((fst (startProofServer sopts w) = Exit 1) =
        reports_failure (fst (snd (startProofServer sopts w))))
   \<and> fst (startProofServer sopts w) \<in> {Exit 0, Exit 1, Running}
   \<and> fst (stopProofServer w) = Exit 0
   \<and> fst (checkStatus w) = Exit 0
   \<and> fst (viewLogs follow w) \<in> {Exit 0, Running}
   \<and> fst (verifyContract address w) = Exit 0
   \<and> fst (interactWithContract address w) = Exit 0"
  using init_exit [of a io kb w] deploy_exit [of dopts rnd now w] test_exit [of topts w]
    compile_exit [of given copts w] start_exit [of sopts w] quiet_exits [of w follow address]
  by blast

text \<open>
  Claim C6. Every fatal error path of every command should end the process with a code
  other than zero. The status and logs commands do not: where no external command
  works, status prints \<^verbatim>\<open>Failed to check status\<close> and the error and the process exits
  with code 0, and so does logs after \<^verbatim>\<open>No logs available\<close>. Their \<^verbatim>\<open>catch\<close> blocks
  lack the \<^verbatim>\<open>process.exit(1)\<close> that the other commands' have.
\<close>

theorem failed_status_exits_zero:
  "checkStatus nothing_works =
     (Exit 0,
      [Exec DockerPsNames, Fail ''Failed to check status'',
       Error (message (CommandFailed DockerPsNames))],
      nothing_works)
   \<and> reports_failure (fst (snd (checkStatus nothing_works)))
   \<and> viewLogs False nothing_works =
     (Exit 0,
      [Exec (DockerLogs False), Error ''No logs available. Is the proof server running?''],
      nothing_works)"
  by (simp add: checkStatus_def viewLogs_def docker_ps_names_def nothing_works_def bare_def
      reports_failure_simps)

end
